theory Spec2Isabelle
  imports Main "HOL-Library.Word"
begin

section \<open>Undefined behaviour as a value\<close>

text \<open>
  The sources are C. Every place where the C standard leaves the behaviour undefined
  (a write through a null pointer, an access outside an allocated block, a signed
  overflow, a read of a string that has no terminator, the use of a value that was never
  written) is a branch of the model that returns a \<open>fault\<close>, so that a function of the
  model either returns what the C function returns or says which undefined step it ran
  into first.
\<close>

datatype fault = NullDereference | OutOfBounds | SignedOverflow | Unterminated | IndeterminateValue

text \<open>
  A C \<open>int\<close> is modelled as an integer together with a range check at every arithmetic
  step of the source (32-bit two's complement): a result outside the range is a signed
  overflow.
\<close>

definition INT_MAX :: int where
  "INT_MAX = 2147483647"

definition INT_MIN :: int where
  "INT_MIN = - 2147483648"

definition c_int :: "int \<Rightarrow> fault + int" where
  "c_int v = (if INT_MIN \<le> v \<and> v \<le> INT_MAX then Inr v else Inl SignedOverflow)"

section \<open>Heap blocks\<close>

text \<open>
  A heap block is the list of its bytes; a byte that was never written is indeterminate
  (\<open>None\<close>). A pointer to a block is \<open>Some\<close> of the block, the null pointer is \<open>None\<close>.
\<close>

type_synonym cell = "8 word option"

type_synonym block = "cell list"

text \<open>
  \<open>realloc(p, n)\<close> of the C library: the block keeps its leading bytes and is cut or
  padded with indeterminate bytes to exactly \<open>n\<close> bytes; \<open>realloc(NULL, n)\<close>
  allocates. The source passes an \<open>int\<close>; a negative one converts to a \<open>size_t\<close> that no
  allocator can serve, and the call returns the null pointer. Allocation of a
  non-negative size is taken to succeed (of size 0 with an empty block).
\<close>

definition realloc :: "block option \<Rightarrow> int \<Rightarrow> block option" where
  "realloc p n =
     (if n < 0 then None
      else Some (case p of
                   None \<Rightarrow> replicate (nat n) None
                 | Some cells \<Rightarrow> take (nat n) cells @ replicate (nat n - length cells) None))"

text \<open>
  \<open>memmove\<close> and \<open>memcpy\<close> between two distinct blocks: \<open>n\<close> bytes are read from
  byte offset \<open>src_off\<close> of the source block and written at byte offset \<open>dst_off\<close> of the
  destination block. The result is the destination block after the call. Both ranges
  have to lie inside their blocks.
\<close>

definition copy_bytes :: "block option \<Rightarrow> int \<Rightarrow> block option \<Rightarrow> int \<Rightarrow> int \<Rightarrow> fault + block" where
  "copy_bytes dst dst_off src src_off n =
     (case dst of
        None \<Rightarrow> Inl NullDereference
      | Some d \<Rightarrow>
          (case src of
             None \<Rightarrow> Inl NullDereference
           | Some s \<Rightarrow>
               if n < 0 \<or> dst_off < 0 \<or> src_off < 0
                  \<or> int (length d) < dst_off + n \<or> int (length s) < src_off + n
               then Inl OutOfBounds
               else Inr (take (nat dst_off) d
                         @ take (nat n) (drop (nat src_off) s)
                         @ drop (nat (dst_off + n)) d)))"

section \<open>The owned array (owned\_array.c)\<close>

record OwnedArray =
  head :: "block option"
  capacity :: int
  element_size :: int
  count :: int

text \<open>
  \<open>grow_on_overflow\<close> only updates the \<open>capacity\<close> field: 4 from 0, otherwise twice
  the old value. The multiplication is a C \<open>int\<close> multiplication.
\<close>

definition grow_on_overflow :: "OwnedArray \<Rightarrow> int \<Rightarrow> fault + OwnedArray" where
  "grow_on_overflow array new_count =
     (if new_count \<le> capacity array then Inr array
      else if capacity array = 0 then Inr (array\<lparr>capacity := 4\<rparr>)
      else (case c_int (capacity array * 2) of
              Inl f \<Rightarrow> Inl f
            | Inr c \<Rightarrow> Inr (array\<lparr>capacity := c\<rparr>)))"

text \<open>
  \<open>owned_array_init\<close> takes a pointer to the array, which may be null; then it does
  nothing.
\<close>

definition owned_array_init :: "OwnedArray option \<Rightarrow> int \<Rightarrow> OwnedArray option" where
  "owned_array_init array es =
     (case array of
        None \<Rightarrow> None
      | Some a \<Rightarrow> Some (a\<lparr>head := None, capacity := 0, element_size := es, count := 0\<rparr>))"

text \<open>
  \<open>owned_array_append\<close>, statement by statement:
  \<^item> \<open>new_count = array->count + 1\<close>;
  \<^item> \<open>grow_on_overflow(array, new_count)\<close>;
  \<^item> \<open>array->head = realloc(array->head, new_count)\<close>: the block has \<open>new_count\<close>
    bytes (the capacity and the element size do not enter the call);
  \<^item> \<open>offset = (char *) array->head + new_count * array->element_size\<close>;
  \<^item> \<open>memmove(offset, element, array->element_size)\<close>;
  \<^item> \<open>free(element)\<close>: the model takes the element by value, nothing of it remains;
  \<^item> \<open>array->count = new_count\<close>.
\<close>

definition owned_array_append :: "OwnedArray \<Rightarrow> block \<Rightarrow> fault + OwnedArray" where
  "owned_array_append array element =
     (case c_int (count array + 1) of
        Inl f \<Rightarrow> Inl f
      | Inr new_count \<Rightarrow>
          (case grow_on_overflow array new_count of
             Inl f \<Rightarrow> Inl f
           | Inr grown \<Rightarrow>
               (let resized = grown\<lparr>head := realloc (head grown) new_count\<rparr> in
                (case c_int (new_count * element_size resized) of
                   Inl f \<Rightarrow> Inl f
                 | Inr offset \<Rightarrow>
                     (case copy_bytes (head resized) offset (Some element) 0 (element_size resized) of
                        Inl f \<Rightarrow> Inl f
                      | Inr cells \<Rightarrow> Inr (resized\<lparr>head := Some cells, count := new_count\<rparr>))))))"

text \<open>
  \<open>owned_array_copy\<close>: the range test is \<open>count == 0 || index < 0 || index > count - 1\<close>,
  evaluated from left to right, so \<open>count - 1\<close> is computed only when the first two tests
  fail. In range, \<open>memcpy(destination, &array->head[index], element_size)\<close> reads at
  \<open>head + index\<close>; \<open>head\<close> is a \<open>void *\<close>, whose arithmetic (an extension of GNU C,
  which accepts the expression) counts bytes, so the source of the copy starts at byte
  \<open>index\<close> of the block. The result is the destination block after the call.
\<close>

definition owned_array_copy :: "OwnedArray \<Rightarrow> block \<Rightarrow> int \<Rightarrow> fault + block" where
  "owned_array_copy array destination index =
     (if count array = 0 \<or> index < 0 then Inr destination
      else (case c_int (count array - 1) of
              Inl f \<Rightarrow> Inl f
            | Inr last_index \<Rightarrow>
                if index > last_index then Inr destination
                else copy_bytes (Some destination) 0 (head array) index (element_size array)))"

text \<open>Appending a sequence of elements, one call after the other.\<close>

fun append_all :: "OwnedArray \<Rightarrow> block list \<Rightarrow> fault + OwnedArray" where
  "append_all array [] = Inr array"
| "append_all array (e # es) =
     (case owned_array_append array e of
        Inl f \<Rightarrow> Inl f
      | Inr array' \<Rightarrow> append_all array' es)"

text \<open>An initialised store: what \<open>owned_array_init\<close> leaves in a fresh allocation.\<close>

definition initialized :: "int \<Rightarrow> OwnedArray" where
  "initialized es = \<lparr>head = None, capacity = 0, element_size = es, count = 0\<rparr>"

section \<open>Strings and pointers to them\<close>

text \<open>
  A \<open>char *\<close> is the null pointer or the address of a string together with the
  characters stored there (without the terminator). The dispatcher compares two such
  pointers with \<open>!=\<close>, which looks at the addresses only.
\<close>

record c_string =
  address :: nat
  chars :: string

type_synonym pointer = "c_string option"

definition same_pointer :: "pointer \<Rightarrow> pointer \<Rightarrow> bool" where
  "same_pointer p q = (map_option address p = map_option address q)"

section \<open>The argument parser: data (argparser.h)\<close>

record Option =
  long_name :: pointer
  short_name :: char
  documentation :: pointer

record Subcommand =
  subcommand_name :: pointer
  subcommand_documentation :: pointer

record Description =
  name :: pointer
  overview :: pointer
  option_count :: int
  options :: "Option list option"
  subcommand_count :: int
  subcommands :: "Subcommand list option"

datatype DefaultExecutionStatus = EXECUTED | UNDESCRIBED | NONE

text \<open>
  The descriptions are kept in an owned array of bytes. How a \<open>struct Description\<close> is
  laid out in memory is fixed by the platform, not by the sources, so the layout is a
  parameter of the model: the size of the struct, its bytes, and the struct read back
  from bytes (\<open>None\<close> when a field would be read from indeterminate bytes).
\<close>

record layout =
  sizeof_Description :: int
  to_bytes :: "Description \<Rightarrow> block"
  of_bytes :: "block \<Rightarrow> Description option"

definition default_option_count :: int where
  "default_option_count = 1"

definition default_options :: "Option list" where
  "default_options =
     [\<lparr>long_name = Some \<lparr>address = 0, chars = ''help''\<rparr>,
       short_name = CHR ''h'',
       documentation = Some \<lparr>address = 1, chars = ''Provide assistance on how to use the program.''\<rparr>\<rparr>]"

section \<open>The argument parser: registry\<close>

definition description_init ::
  "Description option \<Rightarrow> pointer \<Rightarrow> pointer \<Rightarrow> int \<Rightarrow> Option list option \<Rightarrow> int
     \<Rightarrow> Subcommand list option \<Rightarrow> Description option" where
  "description_init description nm ov n_options opts n_subcommands subs =
     (case description of
        None \<Rightarrow> None
      | Some d \<Rightarrow> Some (d\<lparr>name := nm, overview := ov, option_count := n_options, options := opts,
                           subcommand_count := n_subcommands, subcommands := subs\<rparr>))"

text \<open>
  Memory fresh from \<open>malloc\<close> holds no value yet. Both initialisers overwrite every
  field, so the fields of the two blank structs below are never read.
\<close>

definition blank_Description :: Description where
  "blank_Description =
     \<lparr>name = None, overview = None, option_count = 0, options = None,
      subcommand_count = 0, subcommands = None\<rparr>"

definition blank_OwnedArray :: OwnedArray where
  "blank_OwnedArray = \<lparr>head = None, capacity = 0, element_size = 0, count = 0\<rparr>"

text \<open>
  \<open>describe\<close>: the global \<open>descriptions\<close> is passed in and returned. The description
  is built in a fresh allocation, the store is created on the first call with
  \<open>sizeof(Description)\<close> as element size, and the description is appended.
\<close>

definition describe ::
  "layout \<Rightarrow> OwnedArray option \<Rightarrow> pointer \<Rightarrow> pointer \<Rightarrow> int \<Rightarrow> Option list option \<Rightarrow> int
     \<Rightarrow> Subcommand list option \<Rightarrow> fault + OwnedArray option" where
  "describe L descriptions nm ov n_options opts n_subcommands subs =
     (case description_init (Some blank_Description) nm ov n_options opts n_subcommands subs of
        None \<Rightarrow> Inl NullDereference
      | Some description \<Rightarrow>
          (case (case descriptions of
                   None \<Rightarrow> owned_array_init (Some blank_OwnedArray) (sizeof_Description L)
                 | Some a \<Rightarrow> Some a) of
             None \<Rightarrow> Inl NullDereference
           | Some array \<Rightarrow>
               (case owned_array_append array (to_bytes L description) of
                  Inl f \<Rightarrow> Inl f
                | Inr array' \<Rightarrow> Inr (Some array'))))"

section \<open>The argument parser: dispatcher\<close>

text \<open>
  \<open>help\<close> (here \<open>help_fn\<close>) prints with
  \<open>printf("OVERVIEW: %s\nUSAGE: %s", overview, name)\<close>; the model returns the text
  written to standard output. A null pointer for \<open>%s\<close> is undefined.
\<close>

definition help_fn :: "Description \<Rightarrow> fault + string" where
  "help_fn description =
     (case overview description of
        None \<Rightarrow> Inl NullDereference
      | Some ov \<Rightarrow>
          (case name description of
             None \<Rightarrow> Inl NullDereference
           | Some nm \<Rightarrow> Inr (''OVERVIEW: '' @ chars ov @ [CHR 0x0A] @ ''USAGE: '' @ chars nm)))"

text \<open>\<open>switch (option_index) { case 0: help(description); }\<close>: any other index prints nothing.\<close>

definition run_default_for_option_at_index :: "Description \<Rightarrow> int \<Rightarrow> fault + string" where
  "run_default_for_option_at_index description option_index =
     (if option_index = 0 then help_fn description else Inr [])"

text \<open>
  The loop of \<open>argparser_getopt\<close> that assembles \<open>optstring\<close>, which starts as the null
  pointer. In the iteration at \<open>index\<close>:
  \<^item> \<open>options[index]\<close> is read (outside the array it is out of bounds);
  \<^item> if \<open>optstring\<close> is null, \<open>strcpy(optstring, &short_name)\<close> writes through the
    null pointer;
  \<^item> otherwise \<open>strcat(optstring, &short_name)\<close> appends what it reads at the address of
    the single character \<open>short_name\<close>. The byte after it is padding of the struct; the
    model takes it to be zero, so that exactly one character is appended.
  No buffer is ever allocated for \<open>optstring\<close>.
\<close>

function optstring_loop :: "Option list \<Rightarrow> int \<Rightarrow> int \<Rightarrow> string option \<Rightarrow> fault + string option" where
  "optstring_loop opts n_options index optstring =
     (if index < n_options then
        (if index < 0 \<or> int (length opts) \<le> index then Inl OutOfBounds
         else (case optstring of
                 None \<Rightarrow> Inl NullDereference
               | Some s \<Rightarrow>
                   optstring_loop opts n_options (index + 1)
                     (Some (s @ [short_name (opts ! nat index)]))))
      else Inr optstring)"
  by pat_completeness auto
termination
  by (relation "measure (\<lambda>(opts, n_options, index, optstring). nat (n_options - index))") auto

declare optstring_loop.simps [simp del]

text \<open>
  \<open>getopt_long\<close> belongs to the C library and keeps its position in the command line
  in global variables; it is a parameter of the model, a function from the command line,
  the option string (possibly null) and its own state \<open>'s\<close> to the flag it returns and
  its next state. The array \<open>gnu_options\<close> is freed before the call and \<open>flag\<close> is
  null, so neither carries anything the scanner may use.
\<close>

type_synonym 's scanner = "int \<Rightarrow> pointer list \<Rightarrow> string option \<Rightarrow> 's \<Rightarrow> fault + int \<times> 's"

definition argparser_getopt ::
  "'s scanner \<Rightarrow> int \<Rightarrow> pointer list \<Rightarrow> int \<Rightarrow> Option list \<Rightarrow> 's \<Rightarrow> fault + int \<times> 's" where
  "argparser_getopt getopt_long argc argv n_options opts st =
     (case optstring_loop opts n_options 0 None of
        Inl f \<Rightarrow> Inl f
      | Inr optstring \<Rightarrow> getopt_long argc argv optstring st)"

text \<open>
  The search for the caller's description: for every index below \<open>count\<close>, a fresh
  \<open>Description\<close> is allocated, the owned array copies into it, and its \<open>name\<close> is
  compared with \<open>argv[0]\<close> as a pointer. A match overwrites \<open>the_description\<close> and the
  loop goes on, so the last match is the one kept.
\<close>

function find_description ::
  "layout \<Rightarrow> OwnedArray \<Rightarrow> pointer \<Rightarrow> int \<Rightarrow> Description option \<Rightarrow> fault + Description option" where
  "find_description L descriptions program_name description_index the_description =
     (if description_index < count descriptions then
        (case owned_array_copy descriptions
                (replicate (nat (sizeof_Description L)) None) description_index of
           Inl f \<Rightarrow> Inl f
         | Inr cells \<Rightarrow>
             (case of_bytes L cells of
                None \<Rightarrow> Inl IndeterminateValue
              | Some a_description \<Rightarrow>
                  if \<not> same_pointer program_name (name a_description)
                  then find_description L descriptions program_name (description_index + 1)
                         the_description
                  else find_description L descriptions program_name (description_index + 1)
                         (Some a_description)))
      else Inr the_description)"
  by pat_completeness auto
termination
  by (relation "measure (\<lambda>(L, descriptions, program_name, description_index, the_description).
                   nat (count descriptions - description_index))") auto

declare find_description.simps [simp del]

text \<open>
  The body of the \<open>while\<close> loop of \<open>execute_default\<close> for one flag: the \<open>for\<close> loop over
  the built-in options. \<open>None\<close> means the loop ended without a \<open>return\<close>; otherwise the
  result is the status returned together with the text printed.
\<close>

function dispatch_flag ::
  "layout \<Rightarrow> OwnedArray option \<Rightarrow> pointer list \<Rightarrow> int \<Rightarrow> int
     \<Rightarrow> (fault + DefaultExecutionStatus \<times> string) option" where
  "dispatch_flag L descriptions argv flag option_index =
     (if option_index < default_option_count then
        (if int (of_char (short_name (default_options ! nat option_index)) :: nat) \<noteq> flag
         then dispatch_flag L descriptions argv flag (option_index + 1)
         else (case descriptions of
                 None \<Rightarrow> Some (Inr (UNDESCRIBED, []))
               | Some array \<Rightarrow>
                   (case argv of
                      [] \<Rightarrow> Some (Inl OutOfBounds)
                    | program_name # rest \<Rightarrow>
                        (case find_description L array program_name 0 None of
                           Inl f \<Rightarrow> Some (Inl f)
                         | Inr None \<Rightarrow> Some (Inr (UNDESCRIBED, []))
                         | Inr (Some the_description) \<Rightarrow>
                             (case run_default_for_option_at_index the_description option_index of
                                Inl f \<Rightarrow> Some (Inl f)
                              | Inr printed \<Rightarrow> Some (Inr (EXECUTED, printed)))))))
      else None)"
  by pat_completeness auto
termination
  by (relation "measure (\<lambda>(L, descriptions, argv, flag, option_index).
                   nat (default_option_count - option_index))") auto

declare dispatch_flag.simps [simp del]

text \<open>
  \<open>execute_default\<close>: the \<open>while\<close> loop asks \<open>argparser_getopt\<close> for the next flag until
  it answers \<open>-1\<close>. Whether it ever does depends on the scanner, so the loop is a partial
  function: \<open>None\<close> stands for a call that never returns.
\<close>

partial_function (option) execute_default ::
  "'s scanner \<Rightarrow> layout \<Rightarrow> OwnedArray option \<Rightarrow> int \<Rightarrow> pointer list \<Rightarrow> 's
     \<Rightarrow> (fault + DefaultExecutionStatus \<times> string) option" where
  "execute_default getopt_long L descriptions argc argv st =
     (case argparser_getopt getopt_long argc argv default_option_count default_options st of
        Inl f \<Rightarrow> Some (Inl f)
      | Inr (flag, st') \<Rightarrow>
          if flag = - 1 then Some (Inr (NONE, []))
          else (case dispatch_flag L descriptions argv flag 0 of
                  Some r \<Rightarrow> Some r
                | None \<Rightarrow> execute_default getopt_long L descriptions argc argv st'))"

section \<open>The argument parser: subcommand scanner\<close>

text \<open>
  \<open>trim_start\<close> copies the string into a buffer from its first character that is not a
  space on; the buffer is allocated when that character is met. If none is met (the
  string is empty or consists of spaces) the buffer is still null after the loop and the
  function returns at once, leaving the string as it is. Otherwise the buffer, with its
  terminator, is moved to the start of the string. Strings are shorter than \<open>INT_MAX\<close>,
  so the \<open>int\<close> that receives \<open>strlen\<close> holds the length.
\<close>

fun trim_loop :: "string \<Rightarrow> string option \<Rightarrow> string option" where
  "trim_loop [] buffer = buffer"
| "trim_loop (character # rest) None =
     (if character = CHR '' '' then trim_loop rest None else trim_loop rest (Some [character]))"
| "trim_loop (character # rest) (Some b) = trim_loop rest (Some (b @ [character]))"

definition trim_start :: "string \<Rightarrow> string" where
  "trim_start string = (case trim_loop string None of None \<Rightarrow> string | Some b \<Rightarrow> b)"

text \<open>\<open>first_index\<close>: the index of the first occurrence (\<open>strchr\<close>), or \<open>-1\<close>.\<close>

fun first_index :: "string \<Rightarrow> char \<Rightarrow> int" where
  "first_index [] character = - 1"
| "first_index (c # rest) character =
     (if c = character then 0
      else (let i = first_index rest character in if i < 0 then - 1 else i + 1))"

text \<open>
  The loop of \<open>subcommand\<close>, on the arguments from \<open>index\<close> on. Reading \<open>argv[index]\<close>
  beyond the array is out of bounds. The trims happen in place, in the caller's strings;
  of that effect the model keeps the token it returns, as it reads after its trim.
\<close>

fun subcommand_loop :: "int \<Rightarrow> pointer list \<Rightarrow> int \<Rightarrow> int \<Rightarrow> fault + pointer" where
  "subcommand_loop argc [] index last_option_index =
     (if index < argc then Inl OutOfBounds else Inr None)"
| "subcommand_loop argc (argument # rest) index last_option_index =
     (if index < argc then
        (case argument of
           None \<Rightarrow> subcommand_loop argc rest (index + 1) last_option_index
         | Some s \<Rightarrow>
             (let trimmed = trim_start (chars s) in
              if length trimmed = 0 then subcommand_loop argc rest (index + 1) last_option_index
              else if first_index trimmed CHR ''-'' = 0
                then subcommand_loop argc rest (index + 1) index
              else if last_option_index \<ge> 0 \<and> index = last_option_index + 1
                then subcommand_loop argc rest (index + 1) (- 1)
              else Inr (Some (s\<lparr>chars := trimmed\<rparr>))))
      else Inr None)"

definition subcommand :: "int \<Rightarrow> pointer list \<Rightarrow> fault + pointer" where
  "subcommand argc argv =
     (if argc = 1 then Inr None else subcommand_loop argc (drop 1 argv) 1 (- 1))"

section \<open>Bounded concatenation (hx\_strcat)\<close>

datatype ConcatenationStrategy = FILL | TRUNCATE | SEQUENTIAL

text \<open>
  What the sources take from the platform: the value of \<open>ENAMETOOLONG\<close> in
  \<open>errno.h\<close>, whether \<open>__OpenBSD__\<close> or \<open>__APPLE__\<close> is defined, which selects
  the \<open>strlcat\<close> branch at compile time, and the largest \<open>size_t\<close>.
\<close>

record platform =
  ENAMETOOLONG :: int
  has_strlcat :: bool
  SIZE_MAX :: nat

text \<open>
  A call either ends the process with \<open>exit(code)\<close> or returns a \<open>size_t\<close> and leaves
  the destination buffer in a new state.
\<close>

datatype hx_result = Exit int | Return nat string

text \<open>
  The destination is the array of characters it points to, terminator and unused tail
  included; the source is given by its characters before the terminator. A \<open>size_t\<close> is a
  natural number up to \<open>SIZE_MAX\<close>, and the sums the function computes wrap around.
\<close>

definition size_t_add :: "platform \<Rightarrow> nat \<Rightarrow> nat \<Rightarrow> nat" where
  "size_t_add P a b = (a + b) mod (SIZE_MAX P + 1)"

definition NUL :: char where
  "NUL = CHR 0x00"

definition strlen :: "string \<Rightarrow> fault + nat" where
  "strlen buffer =
     (if NUL \<in> set buffer then Inr (length (takeWhile (\<lambda>c. c \<noteq> NUL) buffer))
      else Inl Unterminated)"

definition store :: "string \<Rightarrow> int \<Rightarrow> string \<Rightarrow> fault + string" where
  "store buffer offset bytes =
     (if offset < 0 \<or> int (length buffer) < offset + int (length bytes) then Inl OutOfBounds
      else Inr (take (nat offset) buffer @ bytes @ drop (nat offset + length bytes) buffer))"

text \<open>\<open>strncat(dest, src, n)\<close>: at most \<open>n\<close> characters of the source, then a terminator.\<close>

definition strncat :: "string \<Rightarrow> string \<Rightarrow> nat \<Rightarrow> fault + string" where
  "strncat dest src n =
     (case strlen dest of
        Inl f \<Rightarrow> Inl f
      | Inr dest_length \<Rightarrow> store dest (int dest_length) (take n src @ [NUL]))"

text \<open>
  \<open>strlcat(dst, src, size)\<close>: the length of the destination is looked for in its first
  \<open>size\<close> bytes; without a terminator there, nothing is written and \<open>size + strlen(src)\<close>
  is returned. Otherwise as much of the source as leaves room for the terminator is
  appended, and the length of the string it tried to build is returned.
\<close>

definition strlcat :: "string \<Rightarrow> string \<Rightarrow> nat \<Rightarrow> fault + nat \<times> string" where
  "strlcat dst src n =
     (if length dst < n \<and> NUL \<notin> set dst then Inl Unterminated
      else if NUL \<notin> set (take n dst) then Inr (n + length src, dst)
      else (let dst_length = length (takeWhile (\<lambda>c. c \<noteq> NUL) dst) in
            (case store dst (int dst_length) (take (n - dst_length - 1) src @ [NUL]) of
               Inl f \<Rightarrow> Inl f
             | Inr d \<Rightarrow> Inr (dst_length + length src, d))))"

text \<open>The conversion of a \<open>size_t\<close> to a 32-bit \<open>int\<close> keeps the low 32 bits.\<close>

definition size_t_to_int :: "nat \<Rightarrow> int" where
  "size_t_to_int n = (int n + 2147483648) mod 4294967296 - 2147483648"

text \<open>
  \<open>hx_strcat\<close>. The test before \<open>exit\<close> is
  \<open>strategy != TRUNCATE && destination_size < strlen(destination) + source_size\<close>: the
  length of the destination is taken only when the strategy is not \<open>TRUNCATE\<close>. The
  diagnostic written to the standard error stream before \<open>exit\<close> is not part of the
  result. Without \<open>strlcat\<close> the last branch copies the source to the index one past the
  destination's terminator.
\<close>

definition hx_strcat ::
  "platform \<Rightarrow> string \<Rightarrow> nat \<Rightarrow> string \<Rightarrow> ConcatenationStrategy \<Rightarrow> fault + hx_result" where
  "hx_strcat P destination destination_size source strategy =
     (let source_length = length source in
      if source_length = 0 then Inr (Return 0 destination)
      else
        (let source_size = size_t_add P source_length 1 in
         (case (if strategy \<noteq> TRUNCATE
                then (case strlen destination of
                        Inl f \<Rightarrow> Inl f
                      | Inr destination_length \<Rightarrow>
                          Inr (destination_size < size_t_add P destination_length source_size))
                else Inr False) of
            Inl f \<Rightarrow> Inl f
          | Inr True \<Rightarrow> Inr (Exit (ENAMETOOLONG P))
          | Inr False \<Rightarrow>
              if strategy = SEQUENTIAL then
                (case strncat destination source destination_size of
                   Inl f \<Rightarrow> Inl f
                 | Inr d \<Rightarrow> Inr (Return 0 d))
              else if has_strlcat P then
                (case strlcat destination source destination_size of
                   Inl f \<Rightarrow> Inl f
                 | Inr (r, d) \<Rightarrow> Inr (Return (r mod (SIZE_MAX P + 1)) d))
              else
                (case strlen destination of
                   Inl f \<Rightarrow> Inl f
                 | Inr destination_length \<Rightarrow>
                     (case store destination (size_t_to_int (size_t_add P destination_length 1))
                             (source @ [NUL]) of
                        Inl f \<Rightarrow> Inl f
                      | Inr d \<Rightarrow>
                          Inr (Return (size_t_add P (size_t_add P destination_length source_length) 1)
                                 d))))))"

section \<open>The scanner's contract, as the specification words it\<close>

text \<open>
  The definitions of this section do not come from the sources. They restate the
  contract of \<open>subcommand\<close>: the result is the first token at an index from 1 on that,
  with its leading spaces trimmed, is not empty, does not start with \<open>-\<close>, and does
  not come right after an option token; the token is returned trimmed.
\<close>

definition spec_trimmed :: "string \<Rightarrow> string" where
  "spec_trimmed token = dropWhile (\<lambda>c. c = CHR '' '') token"

definition spec_is_option :: "string \<Rightarrow> bool" where
  "spec_is_option token = (spec_trimmed token \<noteq> [] \<and> hd (spec_trimmed token) = CHR ''-'')"

definition spec_is_subcommand_at :: "string list \<Rightarrow> nat \<Rightarrow> bool" where
  "spec_is_subcommand_at tokens i =
     (1 \<le> i \<and> i < length tokens
      \<and> spec_trimmed (tokens ! i) \<noteq> []
      \<and> hd (spec_trimmed (tokens ! i)) \<noteq> CHR ''-''
      \<and> \<not> (2 \<le> i \<and> spec_is_option (tokens ! (i - 1))))"

definition spec_subcommand :: "string list \<Rightarrow> string option" where
  "spec_subcommand tokens =
     (case filter (spec_is_subcommand_at tokens) [1 ..< length tokens] of
        [] \<Rightarrow> None
      | i # _ \<Rightarrow> Some (spec_trimmed (tokens ! i)))"

text \<open>The same contract as one pass over the tokens after the program's name.\<close>

fun spec_scan :: "bool \<Rightarrow> string list \<Rightarrow> string option" where
  "spec_scan after_option [] = None"
| "spec_scan after_option (token # rest) =
     (if spec_trimmed token = [] then spec_scan False rest
      else if hd (spec_trimmed token) = CHR ''-'' then spec_scan True rest
      else if after_option then spec_scan False rest
      else Some (spec_trimmed token))"

text \<open>A blank token: one or more spaces and nothing else.\<close>

definition blank :: "string \<Rightarrow> bool" where
  "blank token = (token \<noteq> [] \<and> set token \<subseteq> {CHR '' ''})"

text \<open>The characters of the token a call of \<open>subcommand\<close> returns.\<close>

definition returned_chars :: "fault + pointer \<Rightarrow> fault + string option" where
  "returned_chars r = (case r of Inl f \<Rightarrow> Inl f | Inr p \<Rightarrow> Inr (map_option chars p))"

section \<open>Properties of the owned array\<close>

lemma owned_array_init_initialized:
  "owned_array_init (Some a) es = Some (initialized es)"
  by (simp add: owned_array_init_def initialized_def)

lemma owned_array_init_null:
  "owned_array_init None es = None"
  by (simp add: owned_array_init_def)

text \<open>
  C4. For a store that holds \<open>count\<close> elements (\<open>count\<close> a non-negative C \<open>int\<close>) and
  an index that is negative or at least \<open>count\<close>, \<open>owned_array_copy\<close> returns without a
  fault and the destination is the block it was before the call.
\<close>

theorem owned_array_copy_out_of_range:
  assumes "0 \<le> count array" and "count array \<le> INT_MAX"
    and "index < 0 \<or> count array \<le> index"
  shows "owned_array_copy array destination index = Inr destination"
  using assms
  by (auto simp: owned_array_copy_def c_int_def INT_MIN_def INT_MAX_def)

theorem owned_array_copy_out_of_range_witness:
  "owned_array_copy \<lparr>head = Some [Some 1, Some 2], capacity = 4, element_size = 1, count = 2\<rparr>
     [Some 9] 2 = Inr [Some 9]
   \<and> owned_array_copy \<lparr>head = Some [Some 1, Some 2], capacity = 4, element_size = 1, count = 2\<rparr>
     [Some 9] (- 1) = Inr [Some 9]"
  using owned_array_copy_out_of_range
      [of "\<lparr>head = Some [Some 1, Some 2], capacity = 4, element_size = 1, count = 2\<rparr>" 2 "[Some 9]"]
    owned_array_copy_out_of_range
      [of "\<lparr>head = Some [Some 1, Some 2], capacity = 4, element_size = 1, count = 2\<rparr>" "- 1" "[Some 9]"]
  by (simp add: INT_MAX_def)

text \<open>
  The capacity field follows the policy of \<open>grow_on_overflow\<close>: called with
  \<open>count + 1\<close> on a store whose count does not exceed its capacity, it leaves a capacity
  of at least \<open>count + 1\<close>: the old one, 4 from 0, or twice the old one. The other
  fields are not touched.
\<close>

lemma grow_on_overflow_fields:
  assumes "grow_on_overflow array new_count = Inr grown"
  shows "head grown = head array \<and> element_size grown = element_size array \<and> count grown = count array"
  using assms by (auto simp: grow_on_overflow_def split: if_splits sum.splits)

lemma grow_on_overflow_capacity:
  assumes "grow_on_overflow array (count array + 1) = Inr grown"
    and "0 \<le> capacity array" and "count array \<le> capacity array"
  shows "count array + 1 \<le> capacity grown
         \<and> capacity grown = (if count array + 1 \<le> capacity array then capacity array
                             else if capacity array = 0 then 4 else capacity array * 2)"
  using assms by (auto simp: grow_on_overflow_def c_int_def split: if_splits sum.splits)

lemma realloc_length:
  assumes "realloc p n = Some cells"
  shows "int (length cells) = n"
  using assms by (auto simp: realloc_def split: if_splits option.splits)

text \<open>
  The block that \<open>realloc\<close> returns has exactly the number of bytes asked for. In
  \<open>owned_array_append\<close> that number is \<open>new_count\<close>, and the element goes to byte
  \<open>new_count * element_size\<close>, which is at or past the end of the block as soon as an
  element has at least one byte: no append to such a store returns.
\<close>

lemma owned_array_append_faults:
  assumes "1 \<le> element_size array"
  shows "\<exists>f. owned_array_append array element = Inl f"
proof (cases "c_int (count array + 1)")
  case (Inl f)
  then show ?thesis by (simp add: owned_array_append_def)
next
  case (Inr new_count)
  note nc = this
  show ?thesis
  proof (cases "grow_on_overflow array new_count")
    case (Inl f)
    then show ?thesis using nc by (simp add: owned_array_append_def)
  next
    case (Inr grown)
    note g = this
    have es: "element_size grown = element_size array"
      using grow_on_overflow_fields [OF g] by simp
    show ?thesis
    proof (cases "c_int (new_count * element_size array)")
      case (Inl f)
      then show ?thesis using nc g es by (simp add: owned_array_append_def)
    next
      case (Inr offset)
      then have off: "offset = new_count * element_size array"
        by (simp add: c_int_def split: if_splits)
      show ?thesis
      proof (cases "realloc (head grown) new_count")
        case None
        then show ?thesis using nc g es Inr
          by (simp add: owned_array_append_def copy_bytes_def)
      next
        case (Some cells)
        have len: "int (length cells) = new_count" using realloc_length [OF Some] .
        then have "0 \<le> new_count" by linarith
        then have "new_count * 1 \<le> new_count * element_size array"
          using assms by (intro mult_left_mono) simp_all
        then have "int (length cells) \<le> offset" using len off by simp
        then have "int (length cells) < offset + element_size array" using assms by simp
        then have "copy_bytes (Some cells) offset (Some element) 0 (element_size array) = Inl OutOfBounds"
          by (simp add: copy_bytes_def)
        then show ?thesis using nc g es Inr Some
          by (simp add: owned_array_append_def)
      qed
    qed
  qed
qed

text \<open>
  C1. The claim: the \<open>i\<close>-th element appended is what \<open>owned_array_copy\<close> copies out at
  index \<open>i\<close>. On the code the first append to a store of 4-byte elements already runs
  outside its block: the block has \<open>new_count = 1\<close> byte and the element is written
  at byte \<open>new_count * element_size = 4\<close>. And on a store whose block holds the
  two-byte elements \<open>[1, 2]\<close> and \<open>[3, 4]\<close> one after the other, the copy at index 1
  starts at byte 1 and delivers \<open>[2, 3]\<close>.
\<close>

theorem owned_array_append_then_copy_loses_element:
  "append_all (initialized 4) [[Some 2, Some 0, Some 0, Some 0]] = Inl OutOfBounds
   \<and> owned_array_copy
        \<lparr>head = Some [Some 1, Some 2, Some 3, Some 4], capacity = 4, element_size = 2, count = 2\<rparr>
        [None, None] 1 = Inr [Some 2, Some 3]"
  by (simp add: owned_array_append_def owned_array_copy_def initialized_def c_int_def
      INT_MIN_def INT_MAX_def grow_on_overflow_def realloc_def copy_bytes_def)

text \<open>
  C5. The claim: after an append the backing storage holds all \<open>count\<close> elements. On
  the code the first append to a store of 4-byte elements sets the capacity to 4, but
  the block it gets from \<open>realloc\<close> has one byte, and the write of the element is out of
  bounds whatever the element is.
\<close>

theorem owned_array_append_storage_too_small:
  "grow_on_overflow (initialized 4) 1 = Inr ((initialized 4)\<lparr>capacity := 4\<rparr>)
   \<and> realloc (head (initialized 4)) 1 = Some [None]
   \<and> owned_array_append (initialized 4) element = Inl OutOfBounds"
  by (simp add: owned_array_append_def initialized_def c_int_def INT_MIN_def INT_MAX_def
      grow_on_overflow_def realloc_def copy_bytes_def)

section \<open>Properties of the dispatcher\<close>

text \<open>
  The option string starts as the null pointer and the first iteration of the loop copies
  into it: with the built-in option table, \<open>argparser_getopt\<close> stops there, before
  \<open>getopt_long\<close> is called, and so does every call of \<open>execute_default\<close>.
\<close>

lemma optstring_loop_default:
  "optstring_loop default_options default_option_count 0 None = Inl NullDereference"
  by (simp add: optstring_loop.simps default_options_def default_option_count_def)

lemma argparser_getopt_default:
  "argparser_getopt getopt_long argc argv default_option_count default_options st
     = Inl NullDereference"
  by (simp add: argparser_getopt_def optstring_loop_default)

lemma execute_default_faults:
  "execute_default getopt_long L descriptions argc argv st = Some (Inl NullDereference)"
  by (subst execute_default.simps) (simp add: argparser_getopt_default)

text \<open>
  Started with a buffer instead of the null pointer, the loop would append the short
  names in the order of the table, with nothing between them.
\<close>

lemma optstring_loop_buffer:
  assumes "n_options = int (length opts)" and "0 \<le> index" and "index \<le> n_options"
  shows "optstring_loop opts n_options index (Some s)
         = Inr (Some (s @ map short_name (drop (nat index) opts)))"
  using assms
proof (induction opts n_options index "Some s" arbitrary: s rule: optstring_loop.induct)
  case (1 opts n_options index)
  show ?case
  proof (cases "index < n_options")
    case True
    then have d: "drop (nat index) opts = opts ! nat index # drop (nat (index + 1)) opts"
      using "1.prems" by (simp add: Cons_nth_drop_Suc nat_add_distrib)
    have "optstring_loop opts n_options (index + 1) (Some (s @ [short_name (opts ! nat index)]))
          = Inr (Some ((s @ [short_name (opts ! nat index)]) @ map short_name (drop (nat (index + 1)) opts)))"
      using True "1.prems" by (intro "1.hyps") simp_all
    then show ?thesis using True "1.prems" d
      by (subst optstring_loop.simps) simp
  next
    case False
    then show ?thesis using "1.prems"
      by (subst optstring_loop.simps) simp
  qed
qed

text \<open>
  What the body of the loop does with a flag, were one ever returned: any flag but
  \<open>'h'\<close> (104) is passed over; for \<open>'h'\<close> and a store, the status depends on the
  search for the description.
\<close>

lemma dispatch_flag_other:
  assumes "flag \<noteq> 104"
  shows "dispatch_flag L descriptions argv flag 0 = None"
  using assms
  by (simp add: dispatch_flag.simps [of _ _ _ _ 0] dispatch_flag.simps [of _ _ _ _ 1]
      default_option_count_def default_options_def)

lemma dispatch_flag_help:
  "dispatch_flag L (Some array) (program_name # rest) 104 0 =
     (case find_description L array program_name 0 None of
        Inl f \<Rightarrow> Some (Inl f)
      | Inr None \<Rightarrow> Some (Inr (UNDESCRIBED, []))
      | Inr (Some the_description) \<Rightarrow>
          (case help_fn the_description of
             Inl f \<Rightarrow> Some (Inl f)
           | Inr printed \<Rightarrow> Some (Inr (EXECUTED, printed))))"
  by (simp add: dispatch_flag.simps [of _ _ _ _ 0] default_option_count_def default_options_def
      run_default_for_option_at_index_def split: sum.splits option.splits)

text \<open>
  The search does not stop at a match: of two descriptions whose \<open>name\<close> is the pointer
  \<open>argv[0]\<close>, the one at the higher index is kept.
\<close>

lemma find_description_keeps_last_match:
  assumes "count descriptions = 2"
    and "owned_array_copy descriptions (replicate (nat (sizeof_Description L)) None) 0 = Inr cells0"
    and "owned_array_copy descriptions (replicate (nat (sizeof_Description L)) None) 1 = Inr cells1"
    and "of_bytes L cells0 = Some d0" and "of_bytes L cells1 = Some d1"
    and "same_pointer program_name (name d0)" and "same_pointer program_name (name d1)"
  shows "find_description L descriptions program_name 0 None = Inr (Some d1)"
  using assms
  by (simp add: find_description.simps [of _ _ _ 0] find_description.simps [of _ _ _ 1]
      find_description.simps [of _ _ _ 2])

text \<open>
  C2. The claim: with a description registered under the name in \<open>argv[0]\<close> and
  \<open>--help\<close> on the command line, \<open>execute_default\<close> prints the overview and the usage
  banner and returns \<open>EXECUTED\<close>. On the code, with a 40-byte \<open>struct Description\<close>,
  the registration itself writes outside the store's block, and the dispatch (whatever
  the store holds) ends in the write through the null option string.
\<close>

theorem execute_default_help_not_executed:
  "describe (L\<lparr>sizeof_Description := 40\<rparr>) None
       (Some \<lparr>address = 100, chars = ''demo''\<rparr>) (Some \<lparr>address = 200, chars = ''A demo.''\<rparr>)
       0 None 0 None = Inl OutOfBounds
   \<and> execute_default getopt_long L descriptions 2
        [Some \<lparr>address = 100, chars = ''demo''\<rparr>, Some \<lparr>address = 300, chars = ''--help''\<rparr>] st
      = Some (Inl NullDereference)"
  by (simp add: execute_default_faults describe_def description_init_def owned_array_init_def
      owned_array_append_def c_int_def INT_MIN_def INT_MAX_def grow_on_overflow_def
      realloc_def copy_bytes_def)

text \<open>
  C6. The claim: without any registered description and with \<open>--help\<close> present,
  \<open>execute_default\<close> returns \<open>UNDESCRIBED\<close>. The branch is in the code: for the flag
  \<open>'h'\<close> (104) and the null store the loop over the built-in options returns
  \<open>UNDESCRIBED\<close> and prints nothing. But \<open>execute_default\<close> does not get there: it
  ends in the write through the null option string.
\<close>

theorem execute_default_undescribed_not_reached:
  "dispatch_flag L None argv 104 0 = Some (Inr (UNDESCRIBED, []))
   \<and> execute_default getopt_long L None 2
        [Some \<lparr>address = 100, chars = ''demo''\<rparr>, Some \<lparr>address = 300, chars = ''--help''\<rparr>] st
      = Some (Inl NullDereference)"
  by (simp add: execute_default_faults dispatch_flag.simps default_option_count_def
      default_options_def)

text \<open>
  C7. The claim: a command line without \<open>-h\<close> and \<open>--help\<close>, such as \<open>demo build\<close>,
  yields \<open>NONE\<close>. On the code the call ends in the write through the null option
  string, with or without a registered description, and returns no status.
\<close>

theorem execute_default_none_not_reached:
  "execute_default getopt_long L descriptions 2
     [Some \<lparr>address = 100, chars = ''demo''\<rparr>, Some \<lparr>address = 400, chars = ''build''\<rparr>] st
     = Some (Inl NullDereference)
   \<and> execute_default getopt_long L descriptions 2
     [Some \<lparr>address = 100, chars = ''demo''\<rparr>, Some \<lparr>address = 400, chars = ''build''\<rparr>] st
     \<noteq> Some (Inr (NONE, printed))"
  by (simp add: execute_default_faults)

text \<open>
  C9. The claim: the option string handed to the scanner is the sequence of the short
  names. On the code no option string is ever assembled: started from the null pointer,
  the loop never ends with a string, and for the built-in table \<open>argparser_getopt\<close> ends
  in the write through the null pointer.
\<close>

theorem argparser_getopt_assembles_nothing:
  "optstring_loop opts n_options 0 None \<noteq> Inr (Some optstring)
   \<and> argparser_getopt getopt_long argc argv default_option_count default_options st
      = Inl NullDereference"
  by (simp add: argparser_getopt_default optstring_loop.simps)

text \<open>
  C10. The claim: with a built-in flag, a non-empty registry and no description whose
  name is \<open>argv[0]\<close>, \<open>execute_default\<close> returns \<open>UNDESCRIBED\<close>. On the code the call
  ends in the write through the null option string for every store.
\<close>

theorem execute_default_unmatched_not_reached:
  "execute_default getopt_long L (Some array) argc argv st = Some (Inl NullDereference)
   \<and> execute_default getopt_long L (Some array) argc argv st \<noteq> Some (Inr (UNDESCRIBED, printed))"
  by (simp add: execute_default_faults)

section \<open>Properties of the subcommand scanner\<close>

lemma returned_chars_simps [simp]:
  "returned_chars (Inl f) = Inl f"
  "returned_chars (Inr p) = Inr (map_option chars p)"
  by (simp_all add: returned_chars_def)

text \<open>
  What \<open>trim_start\<close> computes: the string without its leading spaces, except that a
  string of spaces only is returned as it is. And \<open>first_index\<close> is 0 exactly when the
  string starts with the character.
\<close>

lemma trim_loop_Some: "trim_loop s (Some b) = Some (b @ s)"
  by (induction s arbitrary: b) auto

lemma trim_loop_None:
  "trim_loop s None = (if spec_trimmed s = [] then None else Some (spec_trimmed s))"
  by (induction s) (auto simp: spec_trimmed_def trim_loop_Some)

lemma trim_start_eq:
  "trim_start s = (if spec_trimmed s = [] then s else spec_trimmed s)"
  by (simp add: trim_start_def trim_loop_None)

lemma spec_trimmed_Nil_iff: "spec_trimmed s = [] \<longleftrightarrow> s = [] \<or> blank s"
  by (auto simp: spec_trimmed_def blank_def dropWhile_eq_Nil_conv)

lemma first_index_ge: "- 1 \<le> first_index s c"
  by (induction s) (auto simp: Let_def)

lemma first_index_zero: "first_index s c = 0 \<longleftrightarrow> s \<noteq> [] \<and> hd s = c"
proof (cases s)
  case Nil
  then show ?thesis by simp
next
  case (Cons a rest)
  have "- 1 \<le> first_index rest c" by (rule first_index_ge)
  then show ?thesis using Cons by (auto simp: Let_def)
qed

text \<open>
  On a command line without blank tokens the loop of \<open>subcommand\<close> is the one pass of the
  contract, the pass finds the first token the contract asks for, and so \<open>subcommand\<close>
  returns what the contract says.
\<close>

lemma subcommand_loop_scan:
  assumes "\<forall>s \<in> set strs. \<not> blank (chars s)"
    and "argc = index + int (length strs)"
    and "last_option_index < index"
    and "1 \<le> index"
  shows "returned_chars (subcommand_loop argc (map Some strs) index last_option_index)
         = Inr (spec_scan (0 \<le> last_option_index \<and> index = last_option_index + 1) (map chars strs))"
  using assms
proof (induction strs arbitrary: index last_option_index)
  case Nil
  then show ?case by simp
next
  case (Cons s rest)
  have lt: "index < argc" using Cons.prems(2) by simp
  have nb: "\<not> blank (chars s)" using Cons.prems(1) by simp
  have rest_nb: "\<forall>s \<in> set rest. \<not> blank (chars s)" using Cons.prems(1) by simp
  have argc': "argc = (index + 1) + int (length rest)" using Cons.prems(2) by simp
  have pos: "1 \<le> index + 1" using Cons.prems(4) by simp
  show ?case
  proof (cases "spec_trimmed (chars s) = []")
    case True
    then have e: "chars s = []" using nb by (simp add: spec_trimmed_Nil_iff)
    have "last_option_index < index + 1" using Cons.prems(3) by simp
    from Cons.IH [OF rest_nb argc' this pos] Cons.prems(3) show ?thesis
      using lt e True by (simp add: trim_start_eq)
  next
    case False
    note ne = this
    show ?thesis
    proof (cases "hd (spec_trimmed (chars s)) = CHR ''-''")
      case True
      have "index < index + 1" by simp
      from Cons.IH [OF rest_nb argc' this pos] Cons.prems(4) show ?thesis
        using lt ne True by (simp add: trim_start_eq first_index_zero)
    next
      case False
      note nd = this
      define consumed where
        "consumed \<longleftrightarrow> 0 \<le> last_option_index \<and> index = last_option_index + 1"
      have step: "subcommand_loop argc (map Some (s # rest)) index last_option_index
                  = (if consumed
                     then subcommand_loop argc (map Some rest) (index + 1) (- 1)
                     else Inr (Some (s\<lparr>chars := spec_trimmed (chars s)\<rparr>)))"
        using lt ne nd by (simp add: consumed_def trim_start_eq first_index_zero)
      have scan: "spec_scan (0 \<le> last_option_index \<and> index = last_option_index + 1)
                    (map chars (s # rest))
                  = (if consumed then spec_scan False (map chars rest)
                     else Some (spec_trimmed (chars s)))"
        using ne nd by (simp add: consumed_def)
      have "- 1 < index + 1" using Cons.prems(4) by simp
      from Cons.IH [OF rest_nb argc' this pos]
      have IH: "returned_chars (subcommand_loop argc (map Some rest) (index + 1) (- 1))
                = Inr (spec_scan False (map chars rest))"
        by simp
      show ?thesis unfolding step scan using IH by (cases consumed) simp_all
    qed
  qed
qed

lemma spec_scan_filter:
  assumes "tokens = pre @ ts" and "1 \<le> length pre"
    and "after_option = (2 \<le> length pre \<and> spec_is_option (last pre))"
  shows "spec_scan after_option ts =
           (case filter (spec_is_subcommand_at tokens) [length pre ..< length tokens] of
              [] \<Rightarrow> None
            | i # _ \<Rightarrow> Some (spec_trimmed (tokens ! i)))"
  using assms
proof (induction ts arbitrary: pre after_option)
  case Nil
  then show ?case by simp
next
  case (Cons t ts)
  let ?i = "length pre"
  have tok: "tokens = (pre @ [t]) @ ts" using Cons.prems(1) by simp
  have len: "1 \<le> length (pre @ [t])" by simp
  have nth: "tokens ! ?i = t" using Cons.prems(1) by simp
  have prev: "tokens ! (?i - 1) = last pre"
    using Cons.prems(1,2) by (cases pre rule: rev_cases) (auto simp: nth_append)
  have "?i < length tokens" using Cons.prems(1) by simp
  then have upt: "[?i ..< length tokens] = ?i # [length (pre @ [t]) ..< length tokens]"
    by (simp add: upt_conv_Cons)
  have at: "spec_is_subcommand_at tokens ?i
              = (spec_trimmed t \<noteq> [] \<and> hd (spec_trimmed t) \<noteq> CHR ''-'' \<and> \<not> after_option)"
    using Cons.prems nth prev by (auto simp: spec_is_subcommand_at_def)
  have next_opt: "(2 \<le> length (pre @ [t]) \<and> spec_is_option (last (pre @ [t]))) = spec_is_option t"
    using Cons.prems(2) by auto
  have IH: "spec_scan (spec_is_option t) ts =
           (case filter (spec_is_subcommand_at tokens) [length (pre @ [t]) ..< length tokens] of
              [] \<Rightarrow> None
            | i # _ \<Rightarrow> Some (spec_trimmed (tokens ! i)))"
    using Cons.IH [OF tok len] next_opt by simp
  show ?case
  proof (cases "spec_trimmed t = []")
    case True
    then have "\<not> spec_is_option t" by (simp add: spec_is_option_def)
    then show ?thesis using True IH at upt by simp
  next
    case False
    show ?thesis
    proof (cases "hd (spec_trimmed t) = CHR ''-''")
      case True
      then have "spec_is_option t" using False by (simp add: spec_is_option_def)
      then show ?thesis using True False IH at upt by simp
    next
      case False
      note nd = this
      then have no: "\<not> spec_is_option t" by (simp add: spec_is_option_def)
      show ?thesis
        using \<open>spec_trimmed t \<noteq> []\<close> nd no IH at upt nth by (cases after_option) simp_all
    qed
  qed
qed

lemma subcommand_agrees:
  assumes "\<forall>s \<in> set strs. \<not> blank (chars s)"
  shows "returned_chars (subcommand (int (length strs)) (map Some strs))
         = Inr (spec_subcommand (map chars strs))"
proof (cases strs)
  case Nil
  then show ?thesis by (simp add: subcommand_def spec_subcommand_def)
next
  case (Cons p rest)
  have nb: "\<forall>s \<in> set rest. \<not> blank (chars s)" using assms Cons by simp
  have code: "returned_chars (subcommand_loop (int (length strs)) (map Some rest) 1 (- 1))
              = Inr (spec_scan False (map chars rest))"
    using subcommand_loop_scan [OF nb, of "int (length strs)" 1 "- 1"] Cons by simp
  have "spec_scan False (map chars rest) =
           (case filter (spec_is_subcommand_at (map chars strs))
                   [length [chars p] ..< length (map chars strs)] of
              [] \<Rightarrow> None
            | i # _ \<Rightarrow> Some (spec_trimmed (map chars strs ! i)))"
    by (rule spec_scan_filter) (simp_all add: Cons)
  then have spec: "spec_scan False (map chars rest) = spec_subcommand (map chars strs)"
    by (simp add: spec_subcommand_def)
  show ?thesis
  proof (cases rest)
    case Nil
    then show ?thesis using Cons by (simp add: subcommand_def spec_subcommand_def)
  next
    case (Cons q more)
    then have "int (length strs) \<noteq> 1" using \<open>strs = p # rest\<close> by simp
    then show ?thesis using code spec \<open>strs = p # rest\<close> by (simp add: subcommand_def)
  qed
qed

text \<open>
  C3. The claim: a token that is empty after its leading spaces are trimmed is passed
  over. On the code \<open>trim_start\<close> leaves a token of spaces as it is, and \<open>subcommand\<close>
  returns it: for \<open>prog " "\<close> the result is the token \<open>" "\<close>, where the contract has no
  subcommand. The two examples of the claim come out as stated.
\<close>

theorem subcommand_returns_blank_token:
  "subcommand 2 [Some \<lparr>address = 0, chars = ''prog''\<rparr>, Some \<lparr>address = 1, chars = '' ''\<rparr>]
     = Inr (Some \<lparr>address = 1, chars = '' ''\<rparr>)
   \<and> spec_subcommand [''prog'', '' ''] = None
   \<and> subcommand 4 [Some \<lparr>address = 0, chars = ''prog''\<rparr>, Some \<lparr>address = 1, chars = ''-x''\<rparr>,
                   Some \<lparr>address = 2, chars = ''value''\<rparr>, Some \<lparr>address = 3, chars = ''build''\<rparr>]
     = Inr (Some \<lparr>address = 3, chars = ''build''\<rparr>)
   \<and> subcommand 2 [Some \<lparr>address = 0, chars = ''prog''\<rparr>, Some \<lparr>address = 1, chars = ''-h''\<rparr>]
     = Inr None"
  by (simp add: subcommand_def trim_start_def spec_subcommand_def spec_is_subcommand_at_def
      spec_trimmed_def upt_rec)

section \<open>Properties of the bounded concatenation\<close>

text \<open>
  C8. With a strategy other than \<open>TRUNCATE\<close>, a non-empty source and a destination
  string of length \<open>n\<close> (the two lengths and the terminator together within
  \<open>SIZE_MAX\<close>, as for any two strings in memory), if the source with its terminator is
  longer than the \<open>destination_size - n\<close> bytes that remain, \<open>hx_strcat\<close> ends the
  process with \<open>exit(ENAMETOOLONG)\<close>. With \<open>TRUNCATE\<close> no call exits, with any code.
\<close>

theorem hx_strcat_exits_unless_truncating:
  "(strategy \<noteq> TRUNCATE \<and> source \<noteq> [] \<and> strlen destination = Inr n
      \<and> n + length source + 1 \<le> SIZE_MAX P
      \<and> destination_size - n < length source + 1
      \<longrightarrow> hx_strcat P destination destination_size source strategy
            = Inr (Exit (ENAMETOOLONG P)))
   \<and> hx_strcat P destination' destination_size' source' TRUNCATE \<noteq> Inr (Exit code)"
proof
  show "strategy \<noteq> TRUNCATE \<and> source \<noteq> [] \<and> strlen destination = Inr n
      \<and> n + length source + 1 \<le> SIZE_MAX P
      \<and> destination_size - n < length source + 1
      \<longrightarrow> hx_strcat P destination destination_size source strategy
            = Inr (Exit (ENAMETOOLONG P))"
  proof
    assume h: "strategy \<noteq> TRUNCATE \<and> source \<noteq> [] \<and> strlen destination = Inr n
      \<and> n + length source + 1 \<le> SIZE_MAX P
      \<and> destination_size - n < length source + 1"
    then have size: "size_t_add P (length source) 1 = length source + 1"
      by (simp add: size_t_add_def)
    have total: "size_t_add P n (length source + 1) = n + length source + 1"
      using h by (simp add: size_t_add_def)
    have "destination_size < n + length source + 1" using h by linarith
    then have test: "destination_size < size_t_add P n (size_t_add P (length source) 1)"
      by (simp only: size total)
    show "hx_strcat P destination destination_size source strategy
            = Inr (Exit (ENAMETOOLONG P))"
      using h test by (simp add: hx_strcat_def Let_def)
  qed
next
  show "hx_strcat P destination' destination_size' source' TRUNCATE \<noteq> Inr (Exit code)"
    by (auto simp: hx_strcat_def Let_def split: sum.splits prod.splits)
qed

theorem hx_strcat_exits_unless_truncating_witness:
  "FILL \<noteq> TRUNCATE \<and> ''cd'' \<noteq> [] \<and> strlen [CHR ''a'', CHR ''b'', NUL, NUL] = Inr 2
   \<and> (2::nat) + length ''cd'' + 1 \<le> 18446744073709551615
   \<and> (4::nat) - 2 < length ''cd'' + 1
   \<and> hx_strcat \<lparr>ENAMETOOLONG = 36, has_strlcat = False, SIZE_MAX = 18446744073709551615\<rparr>
        [CHR ''a'', CHR ''b'', NUL, NUL] 4 ''cd'' FILL
       = Inr (Exit 36)
   \<and> hx_strcat \<lparr>ENAMETOOLONG = 36, has_strlcat = False, SIZE_MAX = 18446744073709551615\<rparr>
        [CHR ''a'', CHR ''b'', NUL, NUL] 4 ''cd'' TRUNCATE
       \<noteq> Inr (Exit 36)"
proof -
  have len: "strlen [CHR ''a'', CHR ''b'', NUL, NUL] = Inr 2"
    by (simp add: strlen_def NUL_def)
  show ?thesis
    using len
      hx_strcat_exits_unless_truncating
        [of FILL "''cd''" "[CHR ''a'', CHR ''b'', NUL, NUL]" 2
            "\<lparr>ENAMETOOLONG = 36, has_strlcat = False, SIZE_MAX = 18446744073709551615\<rparr>" 4
            "[CHR ''a'', CHR ''b'', NUL, NUL]" 4 "''cd''" 36]
    by simp
qed

end
